theory Spec2Isabelle
  imports Main
begin

section \<open>Values exchanged with the caller and with the store\<close>

type_synonym timestamp = nat
type_synonym document = string

text \<open>A JavaScript \<open>Error\<close>: the handlers read \<open>error.message\<close>, the error middleware
  of the server reads \<open>err.stack\<close>.\<close>

record js_error =
  message :: string
  stack :: string

text \<open>A row of the table \<open>users\<close> as the schema declares it:
  \<^verbatim>\<open>id INT AUTO_INCREMENT PRIMARY KEY, name VARCHAR(255) NOT NULL,
  email VARCHAR(255) UNIQUE NOT NULL, created_at TIMESTAMP DEFAULT CURRENT_TIMESTAMP\<close>.\<close>

record user_row =
  row_id :: nat
  row_name :: string
  row_email :: string
  created_at :: timestamp

text \<open>A row of the result of \<^verbatim>\<open>SELECT id, name, email FROM users\<close>.\<close>

record user =
  user_id :: nat
  user_name :: string
  user_email :: string

text \<open>A JSON value as a field of the request body holds it. The handlers look at a value
  in two ways only: whether it is an array, and the string that express-validator's
  \<open>toString\<close> makes of it or of its elements. So a value that is not an array is
  \<open>null\<close>, a string, or any other value (a number, a boolean, an object), which stands
  for that string; an array is the list of its elements, an array among them counting as
  another value.\<close>

datatype scalar = Null | Str string | Other string

datatype json = Single scalar | Array "scalar list"

abbreviation text_value :: "string \<Rightarrow> json option" where
  "text_value s \<equiv> Some (Single (Str s))"

text \<open>The object \<^verbatim>\<open>{ id: result.insertId, name, email }\<close> of the create handler;
  \<open>name\<close> and \<open>email\<close> are whatever the request body held (a field that is
  \<open>undefined\<close> is left out of the JSON text).\<close>

record created =
  created_id :: nat
  created_name :: "json option"
  created_email :: "json option"

text \<open>\<open>req.body\<close> as the create handler reads it: the two fields it destructures, each
  absent (\<open>undefined\<close>) or a JSON value.\<close>

record req_body =
  body_name :: "json option"
  body_email :: "json option"

text \<open>One entry of \<open>errors.array()\<close> of express-validator; \<open>ve_value\<close> is the value that
  failed, an element when the field is an array.\<close>

record validation_error =
  ve_location :: string
  ve_path :: string
  ve_value :: "scalar option"
  ve_msg :: string

datatype body =
    Users "user list"
  | Created created
  | ValidationErrors "validation_error list"
  | ErrorObj string
  | Healthy timestamp
  | Unhealthy string
  | File document
  | NoContent
  | HtmlPage

record response =
  status :: nat
  body :: body

section \<open>The persistence gateway\<close>

text \<open>The calls a handler makes on \<open>db\<close> and on the connection, in the order it makes
  them; \<open>Query\<close> carries the SQL text and the bound parameters.\<close>

datatype gateway_call =
    GetConnection
  | Query string "json option list"
  | Ping
  | Release

text \<open>What the gateway does while one request is served: the error, if any, with which
  \<open>getConnection\<close>, \<open>query\<close> and \<open>ping\<close> reject, and the reading of the clock.
  \<open>other_params\<close> is what becomes of an insert with a parameter that is neither text nor
  \<open>NULL\<close>: the error with which the statement is refused, or the texts that are stored as
  name and email. The spec does not say which (the driver writes a number as its digits and
  an array as the list of its elements, and the store takes or refuses the statement that
  results).\<close>

record env =
  connect_error :: "js_error option"
  query_error :: "js_error option"
  ping_error :: "js_error option"
  other_params :: "js_error + string \<times> string"
  now :: timestamp

record store =
  users :: "user_row list"
  auto_increment :: nat

text \<open>Modelled from the spec: the errors with which the store refuses an insert, a
  duplicate key (spec 3 and 7) and \<open>NULL\<close> for a column that the schema declares
  \<open>NOT NULL\<close>; the message texts are those of MySQL 8. \<open>ER_PARSE_ERROR\<close> is the error
  for a statement that does not parse.\<close>

definition quoted :: "string \<Rightarrow> string" where
  "quoted s = [CHR 0x27] @ s @ [CHR 0x27]"

definition ER_DUP_ENTRY :: "string \<Rightarrow> js_error" where
  "ER_DUP_ENTRY e =
     \<lparr>message = ''Duplicate entry '' @ quoted e @ '' for key '' @ quoted ''users.email'',
      stack = ''Error: Duplicate entry '' @ quoted e @ '' for key '' @ quoted ''users.email''\<rparr>"

definition ER_BAD_NULL_ERROR :: "string \<Rightarrow> js_error" where
  "ER_BAD_NULL_ERROR column =
     \<lparr>message = ''Column '' @ quoted column @ '' cannot be null'',
      stack = ''Error: Column '' @ quoted column @ '' cannot be null''\<rparr>"

definition ER_PARSE_ERROR :: js_error where
  "ER_PARSE_ERROR =
     \<lparr>message = ''You have an error in your SQL syntax'',
      stack = ''Error: You have an error in your SQL syntax''\<rparr>"

text \<open>Modelled from the spec: \<open>src/config/database.js\<close> and the relational store behind it
  are not among the sources. The spec (sections 2 and 6) gives the gateway a call that
  hands out a pooled connection and may fail.\<close>

definition getConnection :: "env \<Rightarrow> js_error + unit" where
  "getConnection ev = (case connect_error ev of Some e \<Rightarrow> Inl e | None \<Rightarrow> Inr ())"

definition project :: "user_row \<Rightarrow> user" where
  "project r = \<lparr>user_id = row_id r, user_name = row_name r, user_email = row_email r\<rparr>"

text \<open>Modelled from the spec: \<open>connection.query\<close> on
  \<^verbatim>\<open>SELECT id, name, email FROM users\<close>. It fetches all rows, projected to the three
  columns, in the order the store holds them (spec 4.1), or fails (spec 6).\<close>

definition query_select :: "env \<Rightarrow> store \<Rightarrow> js_error + user list" where
  "query_select ev st =
     (case query_error ev of
        Some e \<Rightarrow> Inl e
      | None \<Rightarrow> Inr (map project (users st)))"

text \<open>Modelled from the spec: the insert of a name and an email that are text. The store
  assigns \<open>id\<close> and \<open>created_at\<close> (spec 4.1); \<open>id\<close> is the auto-increment counter of
  the schema (spec 3 and 6); an email already in the table makes the insert fail without
  overwriting (spec 3).\<close>

definition insert_row :: "env \<Rightarrow> string \<Rightarrow> string \<Rightarrow> store \<Rightarrow> (js_error + nat) \<times> store" where
  "insert_row ev n e st =
     (if e \<in> set (map row_email (users st)) then (Inl (ER_DUP_ENTRY e), st)
      else (Inr (auto_increment st),
            st\<lparr>users := users st @
                 [\<lparr>row_id = auto_increment st, row_name = n, row_email = e,
                   created_at = now ev\<rparr>],
               auto_increment := Suc (auto_increment st)\<rparr>))"

text \<open>What a parameter is bound to: \<open>undefined\<close> and \<open>null\<close> are sent as \<open>NULL\<close>, a
  string as text.\<close>

datatype sql_param = SqlNull | SqlText string | SqlOther

definition escape :: "json option \<Rightarrow> sql_param" where
  "escape v =
     (case v of
        None \<Rightarrow> SqlNull
      | Some (Single Null) \<Rightarrow> SqlNull
      | Some (Single (Str s)) \<Rightarrow> SqlText s
      | Some (Single (Other s)) \<Rightarrow> SqlOther
      | Some (Array xs) \<Rightarrow> SqlOther)"

text \<open>Modelled from the spec: \<open>connection.query\<close> on
  \<^verbatim>\<open>INSERT INTO users (name, email) VALUES (?, ?)\<close>. The call may fail for reasons of
  its own (spec 6); text parameters are inserted as above; \<open>NULL\<close> is refused for either
  column, which the schema declares \<open>NOT NULL\<close>; what becomes of any other parameter is
  given by \<open>other_params\<close>.\<close>

definition query_insert ::
  "env \<Rightarrow> json option \<Rightarrow> json option \<Rightarrow> store \<Rightarrow> (js_error + nat) \<times> store" where
  "query_insert ev name email st =
     (case query_error ev of
        Some err \<Rightarrow> (Inl err, st)
      | None \<Rightarrow>
          (case (escape name, escape email) of
             (SqlText n, SqlText e) \<Rightarrow> insert_row ev n e st
           | (SqlNull, SqlNull) \<Rightarrow> (Inl (ER_BAD_NULL_ERROR ''name''), st)
           | (SqlNull, SqlText e) \<Rightarrow> (Inl (ER_BAD_NULL_ERROR ''name''), st)
           | (SqlText n, SqlNull) \<Rightarrow> (Inl (ER_BAD_NULL_ERROR ''email''), st)
           | _ \<Rightarrow>
               (case other_params ev of
                  Inl err \<Rightarrow> (Inl err, st)
                | Inr (n, e) \<Rightarrow> insert_row ev n e st)))"

text \<open>Modelled from the spec: \<open>connection.ping\<close>, a no-op round trip to the store that
  may fail (spec 4.2 and 6).\<close>

definition ping :: "env \<Rightarrow> js_error + unit" where
  "ping ev = (case ping_error ev of Some e \<Rightarrow> Inl e | None \<Rightarrow> Inr ())"

text \<open>The table after \<open>init.sql\<close>: the schema and its two seed rows, inserted at time \<open>t\<close>.\<close>

definition init_sql :: "timestamp \<Rightarrow> store" where
  "init_sql t =
     \<lparr>users =
        [\<lparr>row_id = 1, row_name = ''John Doe'', row_email = ''john@example.com'', created_at = t\<rparr>,
         \<lparr>row_id = 2, row_name = ''Jane Smith'', row_email = ''jane@example.com'', created_at = t\<rparr>],
      auto_increment = 3\<rparr>"

section \<open>routes/users.js\<close>

definition SELECT_USERS :: string where
  "SELECT_USERS = ''SELECT id, name, email FROM users''"

definition INSERT_USER :: string where
  "INSERT_USER = ''INSERT INTO users (name, email) VALUES (?, ?)''"

text \<open>\<open>router.get('/')\<close>: the status and the value the handler gives to \<open>res.json\<close>,
  the store afterwards and the gateway calls made. A rejected call jumps to the
  \<open>catch\<close>, so what follows it in the \<open>try\<close> (the \<open>release\<close>) does not run. What
  \<open>res.json\<close> sends of it in answer to a \<open>HEAD\<close> or a conditional request is part of the
  application below.\<close>

definition users_get :: "env \<Rightarrow> store \<Rightarrow> response \<times> store \<times> gateway_call list" where
  "users_get ev st =
     (case getConnection ev of
        Inl error \<Rightarrow> (\<lparr>status = 500, body = ErrorObj (message error)\<rparr>, st, [GetConnection])
      | Inr _ \<Rightarrow>
          (case query_select ev st of
             Inl error \<Rightarrow>
               (\<lparr>status = 500, body = ErrorObj (message error)\<rparr>, st,
                [GetConnection, Query SELECT_USERS []])
           | Inr rows \<Rightarrow>
               (\<lparr>status = 200, body = Users rows\<rparr>, st,
                [GetConnection, Query SELECT_USERS [], Release])))"

text \<open>express-validator runs a standard validator on each of the values of a field: the
  elements when the field is an array (\<open>Array.isArray(value) ? value : [value]\<close>), the
  field itself otherwise, \<open>undefined\<close> when it is absent. An empty array has no value to
  run on.\<close>

definition values_ev :: "json option \<Rightarrow> scalar option list" where
  "values_ev v =
     (case v of
        None \<Rightarrow> [None]
      | Some (Single x) \<Rightarrow> [Some x]
      | Some (Array xs) \<Rightarrow> map Some xs)"

text \<open>The validator is given the string form of the value: the empty string for
  \<open>undefined\<close> and \<open>null\<close>. \<open>notEmpty\<close> is the negation of validator.js's \<open>isEmpty\<close>,
  which compares the length with 0 and does not trim. \<open>isEmail\<close> is validator.js's
  function, taken as a parameter.\<close>

definition toString_ev :: "scalar option \<Rightarrow> string" where
  "toString_ev v =
     (case v of
        None \<Rightarrow> []
      | Some Null \<Rightarrow> []
      | Some (Str s) \<Rightarrow> s
      | Some (Other s) \<Rightarrow> s)"

definition notEmpty :: "scalar option \<Rightarrow> bool" where
  "notEmpty v = (length (toString_ev v) \<noteq> 0)"

definition invalid_value :: "string \<Rightarrow> scalar option \<Rightarrow> validation_error" where
  "invalid_value p v =
     \<lparr>ve_location = ''body'', ve_path = p, ve_value = v, ve_msg = ''Invalid value''\<rparr>"

text \<open>\<open>validationResult(req).array()\<close> after the chain
  \<open>body('name').notEmpty(), body('email').isEmail()\<close>: one error for each value that fails,
  in the order of the chain.\<close>

definition validationResult :: "(string \<Rightarrow> bool) \<Rightarrow> req_body \<Rightarrow> validation_error list" where
  "validationResult isEmail b =
     map (invalid_value ''name'') (filter (\<lambda>v. \<not> notEmpty v) (values_ev (body_name b))) @
     map (invalid_value ''email'')
       (filter (\<lambda>v. \<not> isEmail (toString_ev v)) (values_ev (body_email b)))"

text \<open>\<open>router.post('/')\<close>.\<close>

definition users_post ::
  "(string \<Rightarrow> bool) \<Rightarrow> env \<Rightarrow> store \<Rightarrow> req_body \<Rightarrow> response \<times> store \<times> gateway_call list" where
  "users_post isEmail ev st b =
     (let errors = validationResult isEmail b in
      if errors \<noteq> [] then (\<lparr>status = 400, body = ValidationErrors errors\<rparr>, st, [])
      else
        (case getConnection ev of
           Inl error \<Rightarrow> (\<lparr>status = 500, body = ErrorObj (message error)\<rparr>, st, [GetConnection])
         | Inr _ \<Rightarrow>
             (case query_insert ev (body_name b) (body_email b) st of
                (Inl error, st') \<Rightarrow>
                  (\<lparr>status = 500, body = ErrorObj (message error)\<rparr>, st',
                   [GetConnection, Query INSERT_USER [body_name b, body_email b]])
              | (Inr insertId, st') \<Rightarrow>
                  (\<lparr>status = 201,
                    body = Created \<lparr>created_id = insertId, created_name = body_name b,
                                    created_email = body_email b\<rparr>\<rparr>,
                   st',
                   [GetConnection, Query INSERT_USER [body_name b, body_email b], Release]))))"

section \<open>routes/health.js\<close>

text \<open>\<open>router.get('/')\<close> of the health router. It is not given the store: it issues no
  query. \<open>new Date()\<close> reads the clock when the probe has returned.\<close>

definition health_get :: "env \<Rightarrow> response \<times> gateway_call list" where
  "health_get ev =
     (case getConnection ev of
        Inl error \<Rightarrow> (\<lparr>status = 503, body = Unhealthy (message error)\<rparr>, [GetConnection])
      | Inr _ \<Rightarrow>
          (case ping ev of
             Inl error \<Rightarrow> (\<lparr>status = 503, body = Unhealthy (message error)\<rparr>, [GetConnection, Ping])
           | Inr _ \<Rightarrow> (\<lparr>status = 200, body = Healthy (now ev)\<rparr>, [GetConnection, Ping, Release])))"

section \<open>server.js\<close>

text \<open>The method of a request; \<open>OTHER\<close> is any method beside the seven named that Node
  hands to the application, by its name.\<close>

datatype http_method = GET | HEAD | POST | PUT | PATCH | DELETE | OPTIONS | OTHER string

text \<open>The header lines of a request, the names in lower case as Node gives them.\<close>

type_synonym headers = "(string \<times> string) list"

text \<open>The body of a request as it arrives: none; one that \<open>express.json()\<close> refuses,
  with the status of the parser's error (400 for a text that is not JSON, 413 for a body
  over the size limit, 415 for an unsupported charset or encoding); or a JSON object, of
  which the two fields the create handler reads are kept. \<open>req_url\<close> is the path of the
  url, without the query. A request is one that Node has parsed and handed to the
  application.\<close>

datatype raw_body = NoBody | Refused nat | Fields "json option" "json option"

record request =
  req_method :: http_method
  req_url :: string
  req_headers :: headers
  req_raw :: raw_body

text \<open>What the server is built on and does not define itself: validator.js's
  \<open>isEmail\<close>; Express's matching of a url against the path of \<open>app.use(path, router)\<close>,
  which yields the rest of the url handed to the router, and against the path of a route;
  the file of the directory \<open>../public\<close> that a url path names, if any; the comparison
  of the validators of a conditional request with those of a response (the \<open>fresh\<close>
  module); and the answer of the \<open>send\<close> module for a file when the request carries a
  conditional or range header (304, 412, 206, 416, or the file with 200).\<close>

record platform =
  lib_isEmail :: "string \<Rightarrow> bool"
  use_match :: "string \<Rightarrow> string \<Rightarrow> string option"
  route_match :: "string \<Rightarrow> string \<Rightarrow> bool"
  public_dir :: "string \<Rightarrow> document option"
  lib_fresh :: "headers \<Rightarrow> response \<Rightarrow> bool"
  send_conditional :: "headers \<Rightarrow> document \<Rightarrow> response"

definition has_header :: "headers \<Rightarrow> string \<Rightarrow> bool" where
  "has_header hs name = (map_of hs name \<noteq> None)"

text \<open>The request carries one of the headers on which the \<open>send\<close> module answers a file
  otherwise than in full.\<close>

definition conditional :: "headers \<Rightarrow> bool" where
  "conditional hs =
     (has_header hs ''if-match'' \<or> has_header hs ''if-unmodified-since'' \<or>
      has_header hs ''if-none-match'' \<or> has_header hs ''if-modified-since'' \<or>
      has_header hs ''range'')"

text \<open>A file as the \<open>send\<close> module answers with it, for \<open>express.static\<close> and for
  \<open>res.sendFile\<close>.\<close>

definition send :: "platform \<Rightarrow> request \<Rightarrow> document \<Rightarrow> response" where
  "send pf req d =
     (if conditional (req_headers req) then send_conditional pf (req_headers req) d
      else \<lparr>status = 200, body = File d\<rparr>)"

text \<open>\<open>res.send\<close>, through which \<open>res.json\<close> answers: when \<open>req.fresh\<close> holds the status
  becomes 304 and the body is dropped. \<open>req.fresh\<close> is false unless the method is \<open>GET\<close>
  or \<open>HEAD\<close>, the status is 2xx or 304, and the request carries \<open>If-None-Match\<close> or
  \<open>If-Modified-Since\<close>.\<close>

definition res_send :: "platform \<Rightarrow> request \<Rightarrow> response \<Rightarrow> response" where
  "res_send pf req r =
     (if (req_method req = GET \<or> req_method req = HEAD) \<and>
         ((200 \<le> status r \<and> status r < 300) \<or> status r = 304) \<and>
         (has_header (req_headers req) ''if-none-match'' \<or>
          has_header (req_headers req) ''if-modified-since'') \<and>
         lib_fresh pf (req_headers req) r
      then \<lparr>status = 304, body = NoContent\<rparr>
      else r)"

text \<open>In answer to \<open>HEAD\<close> no body is sent: \<open>res.send\<close>, the \<open>send\<close> module and
  Express's final handler all end the response without one.\<close>

definition for_method :: "request \<Rightarrow> response \<Rightarrow> response" where
  "for_method req r = (if req_method req = HEAD then r\<lparr>body := NoContent\<rparr> else r)"

text \<open>\<open>cors()\<close> with its defaults ends an \<open>OPTIONS\<close> request itself, with status 204 and
  no content; any other request goes on (with headers added, not modelled).\<close>

definition cors :: "request \<Rightarrow> response option" where
  "cors req =
     (if req_method req = OPTIONS then Some \<lparr>status = 204, body = NoContent\<rparr> else None)"

text \<open>\<open>express.json()\<close> sets \<open>req.body\<close>: the parsed object, or \<open>{}\<close> when there is
  no JSON body. On a body it refuses it raises an error with a status, which no
  handler of the server takes (the function registered last has three parameters, so
  Express does not treat it as an error handler); Express's own final handler answers with
  an HTML page.\<close>

definition express_json :: "raw_body \<Rightarrow> response + req_body" where
  "express_json raw =
     (case raw of
        NoBody \<Rightarrow> Inr \<lparr>body_name = None, body_email = None\<rparr>
      | Refused s \<Rightarrow> Inl \<lparr>status = s, body = HtmlPage\<rparr>
      | Fields n e \<Rightarrow> Inr \<lparr>body_name = n, body_email = e\<rparr>)"

text \<open>\<open>express.static(public)\<close> answers a \<open>GET\<close> or \<open>HEAD\<close> whose url names a file
  of the directory, \<open>index.html\<close> for the directory itself; anything else goes on. The
  directory holds files only (the README lists \<open>index.html\<close> and \<open>app.js\<close>).\<close>

definition express_static :: "platform \<Rightarrow> request \<Rightarrow> response option" where
  "express_static pf req =
     (if req_method req = GET \<or> req_method req = HEAD then
        (case public_dir pf (if req_url req = ''/'' then ''/index.html'' else req_url req) of
           Some d \<Rightarrow> Some (send pf req d)
         | None \<Rightarrow> None)
      else None)"

text \<open>A route registered for \<open>GET\<close> also takes \<open>HEAD\<close> when, as here, the router has no
  route for \<open>HEAD\<close>.\<close>

definition handles_method :: "http_method \<Rightarrow> http_method \<Rightarrow> bool" where
  "handles_method route_method m = (m = route_method \<or> (route_method = GET \<and> m = HEAD))"

text \<open>The router of \<open>routes/users.js\<close> on the rest of the url: \<open>None\<close> when no route of
  it matches and the request goes on.\<close>

definition users_router ::
  "platform \<Rightarrow> env \<Rightarrow> store \<Rightarrow> http_method \<Rightarrow> string \<Rightarrow> req_body \<Rightarrow>
   (response \<times> store \<times> gateway_call list) option" where
  "users_router pf ev st m rest b =
     (if handles_method GET m \<and> route_match pf ''/'' rest then Some (users_get ev st)
      else if handles_method POST m \<and> route_match pf ''/'' rest
        then Some (users_post (lib_isEmail pf) ev st b)
      else None)"

definition health_router ::
  "platform \<Rightarrow> env \<Rightarrow> store \<Rightarrow> http_method \<Rightarrow> string \<Rightarrow>
   (response \<times> store \<times> gateway_call list) option" where
  "health_router pf ev st m rest =
     (if handles_method GET m \<and> route_match pf ''/'' rest
        then (case health_get ev of (r, calls) \<Rightarrow> Some (r, st, calls))
      else None)"

text \<open>\<open>res.sendFile\<close> on a file of \<open>../public\<close>; a missing file is an error that ends in
  Express's final handler.\<close>

definition sendFile :: "platform \<Rightarrow> request \<Rightarrow> string \<Rightarrow> response" where
  "sendFile pf req p =
     (case public_dir pf p of
        Some d \<Rightarrow> send pf req d
      | None \<Rightarrow> \<lparr>status = 404, body = HtmlPage\<rparr>)"

text \<open>The middleware and routes in the order \<open>server.js\<close> registers them; the handlers
  of the two routers and the 404 handler answer through \<open>res.json\<close>. The function
  registered after the 404 handler is never reached, since the 404 handler answers every
  request that gets to it.\<close>

definition dispatch ::
  "platform \<Rightarrow> env \<Rightarrow> store \<Rightarrow> request \<Rightarrow> response \<times> store \<times> gateway_call list" where
  "dispatch pf ev st req =
     (case cors req of
        Some r \<Rightarrow> (r, st, [])
      | None \<Rightarrow>
     (case express_json (req_raw req) of
        Inl r \<Rightarrow> (r, st, [])
      | Inr b \<Rightarrow>
     (case express_static pf req of
        Some r \<Rightarrow> (r, st, [])
      | None \<Rightarrow>
     (case (case use_match pf ''/api/users'' (req_url req) of
              Some rest \<Rightarrow> users_router pf ev st (req_method req) rest b
            | None \<Rightarrow> None) of
        Some (r, st', calls) \<Rightarrow> (res_send pf req r, st', calls)
      | None \<Rightarrow>
     (case (case use_match pf ''/api/health'' (req_url req) of
              Some rest \<Rightarrow> health_router pf ev st (req_method req) rest
            | None \<Rightarrow> None) of
        Some (r, st', calls) \<Rightarrow> (res_send pf req r, st', calls)
      | None \<Rightarrow>
     (if handles_method GET (req_method req) \<and> route_match pf ''/'' (req_url req)
        then (sendFile pf req ''/index.html'', st, [])
      else (res_send pf req \<lparr>status = 404, body = ErrorObj ''Not Found''\<rparr>, st, [])))))))"

text \<open>The application: what is sent in answer to a request.\<close>

definition app ::
  "platform \<Rightarrow> env \<Rightarrow> store \<Rightarrow> request \<Rightarrow> response \<times> store \<times> gateway_call list" where
  "app pf ev st req =
     (case dispatch pf ev st req of (r, st', calls) \<Rightarrow> (for_method req r, st', calls))"

section \<open>Notions the properties are stated with\<close>

text \<open>\<open>express.json()\<close> accepts the body of the request.\<close>

definition parses :: "raw_body \<Rightarrow> bool" where
  "parses raw = (case raw of Refused s \<Rightarrow> False | _ \<Rightarrow> True)"

text \<open>The path and method of a request match a route that \<open>server.js\<close> registers.\<close>

definition routed :: "platform \<Rightarrow> request \<Rightarrow> bool" where
  "routed pf req =
     ((case use_match pf ''/api/users'' (req_url req) of
         Some rest \<Rightarrow> route_match pf ''/'' rest \<and>
           (handles_method GET (req_method req) \<or> handles_method POST (req_method req))
       | None \<Rightarrow> False) \<or>
      (case use_match pf ''/api/health'' (req_url req) of
         Some rest \<Rightarrow> route_match pf ''/'' rest \<and> handles_method GET (req_method req)
       | None \<Rightarrow> False) \<or>
      (route_match pf ''/'' (req_url req) \<and> handles_method GET (req_method req)))"

text \<open>Every id in the table lies below the auto-increment counter.\<close>

definition store_inv :: "store \<Rightarrow> bool" where
  "store_inv st = list_all (\<lambda>r. row_id r < auto_increment st) (users st)"

text \<open>A sequence of create requests, each served under its own condition of the gateway:
  the responses in order, and the store at the end.\<close>

fun creates ::
  "(string \<Rightarrow> bool) \<Rightarrow> (env \<times> req_body) list \<Rightarrow> store \<Rightarrow> response list \<times> store" where
  "creates isEmail [] st = ([], st)"
| "creates isEmail ((ev, b) # reqs) st =
     (case users_post isEmail ev st b of
        (r, st', _) \<Rightarrow>
          (case creates isEmail reqs st' of (rs, st'') \<Rightarrow> (r # rs, st'')))"

text \<open>The ids that a list of responses reports as created.\<close>

fun issued_ids :: "response list \<Rightarrow> nat list" where
  "issued_ids [] = []"
| "issued_ids (r # rs) =
     (case body r of Created c \<Rightarrow> created_id c # issued_ids rs | _ \<Rightarrow> issued_ids rs)"

text \<open>The characters that JavaScript's \<open>trim\<close> removes, as far as ASCII has them.\<close>

definition whitespace :: "char \<Rightarrow> bool" where
  "whitespace c = (c \<in> set [CHR 0x20, CHR 0x09, CHR 0x0A, CHR 0x0B, CHR 0x0C, CHR 0x0D])"

text \<open>A platform to evaluate the application on: a validator that asks for an \<open>@\<close>, urls
  matched letter by letter, the two files the README lists under \<open>public/\<close>, and every
  conditional request taken as fresh.\<close>

definition sample_platform :: platform where
  "sample_platform =
     \<lparr>lib_isEmail = (\<lambda>s. CHR ''@'' \<in> set s),
      use_match = (\<lambda>p u. if u = p then Some ''/'' else None),
      route_match = (\<lambda>p u. u = p),
      public_dir = (\<lambda>u. if u = ''/index.html'' then Some ''<html></html>''
                         else if u = ''/app.js'' then Some ''fetch()'' else None),
      lib_fresh = (\<lambda>hs r. True),
      send_conditional = (\<lambda>hs d. \<lparr>status = 304, body = NoContent\<rparr>)\<rparr>"

text \<open>The gateway in working order at time \<open>t\<close>, and failing with \<open>e\<close> at each call; in
  both, a statement with a parameter that is neither text nor \<open>NULL\<close> is refused as one
  that does not parse.\<close>

definition gateway_up :: "timestamp \<Rightarrow> env" where
  "gateway_up t =
     \<lparr>connect_error = None, query_error = None, ping_error = None,
      other_params = Inl ER_PARSE_ERROR, now = t\<rparr>"

definition gateway_down :: "js_error \<Rightarrow> timestamp \<Rightarrow> env" where
  "gateway_down e t =
     \<lparr>connect_error = Some e, query_error = Some e, ping_error = Some e,
      other_params = Inl ER_PARSE_ERROR, now = t\<rparr>"

definition ETIMEDOUT :: js_error where
  "ETIMEDOUT = \<lparr>message = ''connect ETIMEDOUT'', stack = ''Error: connect ETIMEDOUT''\<rparr>"

section \<open>Facts about validation, the insert and sequences of creates\<close>

lemma users_post_valid:
  assumes "n \<noteq> []" and "isEmail e" and "e \<notin> row_email ` set (users st)"
    and "connect_error ev = None" and "query_error ev = None"
  shows "users_post isEmail ev st \<lparr>body_name = text_value n, body_email = text_value e\<rparr> =
    (\<lparr>status = 201,
      body = Created \<lparr>created_id = auto_increment st, created_name = text_value n,
                      created_email = text_value e\<rparr>\<rparr>,
     st\<lparr>users := users st @
          [\<lparr>row_id = auto_increment st, row_name = n, row_email = e, created_at = now ev\<rparr>],
        auto_increment := Suc (auto_increment st)\<rparr>,
     [GetConnection, Query INSERT_USER [text_value n, text_value e], Release])"
proof -
  have "validationResult isEmail \<lparr>body_name = text_value n, body_email = text_value e\<rparr> = []"
    using assms(1,2) by (simp add: validationResult_def values_ev_def notEmpty_def toString_ev_def)
  moreover have "getConnection ev = Inr ()"
    using assms(4) by (simp add: getConnection_def)
  moreover have "query_insert ev (text_value n) (text_value e) st =
      (Inr (auto_increment st),
       st\<lparr>users := users st @
            [\<lparr>row_id = auto_increment st, row_name = n, row_email = e, created_at = now ev\<rparr>],
          auto_increment := Suc (auto_increment st)\<rparr>)"
    using assms(3,5) by (simp add: query_insert_def escape_def insert_row_def)
  ultimately show ?thesis by (simp add: users_post_def)
qed

lemma insert_row_cases:
  assumes "insert_row ev n e st = (res, st')"
  shows "(\<exists>err. res = Inl err \<and> st' = st) \<or>
         (res = Inr (auto_increment st) \<and>
            st' = st\<lparr>users := users st @
                    [\<lparr>row_id = auto_increment st, row_name = n, row_email = e,
                      created_at = now ev\<rparr>],
                  auto_increment := Suc (auto_increment st)\<rparr>)"
  using assms by (auto simp: insert_row_def split: if_splits)

lemma query_insert_cases:
  assumes "query_insert ev name email st = (res, st')"
  shows "(\<exists>err. res = Inl err \<and> st' = st) \<or>
         (\<exists>n e. res = Inr (auto_increment st) \<and>
            st' = st\<lparr>users := users st @
                    [\<lparr>row_id = auto_increment st, row_name = n, row_email = e,
                      created_at = now ev\<rparr>],
                  auto_increment := Suc (auto_increment st)\<rparr>)"
  using assms
  by (auto simp: query_insert_def split: option.splits sql_param.splits sum.splits prod.splits
      dest!: insert_row_cases)

lemma users_post_cases:
  assumes "users_post isEmail ev st b = (r, st', calls)"
  shows "(st' = st \<and> (\<forall>c. body r \<noteq> Created c)) \<or>
         (\<exists>c row. body r = Created c \<and> created_id c = auto_increment st \<and>
            row_id row = auto_increment st \<and>
            st' = st\<lparr>users := users st @ [row], auto_increment := Suc (auto_increment st)\<rparr>)"
proof (cases "validationResult isEmail b = []")
  case False
  with assms show ?thesis by (auto simp: users_post_def Let_def)
next
  case valid: True
  show ?thesis
  proof (cases "getConnection ev")
    case (Inl err)
    with assms valid show ?thesis by (auto simp: users_post_def)
  next
    case (Inr u)
    obtain res st1 where q: "query_insert ev (body_name b) (body_email b) st = (res, st1)"
      by (cases "query_insert ev (body_name b) (body_email b) st")
    from query_insert_cases [OF q] show ?thesis
    proof
      assume "\<exists>err. res = Inl err \<and> st1 = st"
      with assms valid Inr q show ?thesis by (auto simp: users_post_def)
    next
      assume "\<exists>n e. res = Inr (auto_increment st) \<and>
            st1 = st\<lparr>users := users st @
                    [\<lparr>row_id = auto_increment st, row_name = n, row_email = e,
                      created_at = now ev\<rparr>],
                  auto_increment := Suc (auto_increment st)\<rparr>"
      then obtain n e where res: "res = Inr (auto_increment st)"
        and st1: "st1 = st\<lparr>users := users st @
                    [\<lparr>row_id = auto_increment st, row_name = n, row_email = e,
                      created_at = now ev\<rparr>],
                  auto_increment := Suc (auto_increment st)\<rparr>"
        by blast
      from assms valid Inr q res
      have "body r = Created \<lparr>created_id = auto_increment st, created_name = body_name b,
                                created_email = body_email b\<rparr>" and "st' = st1"
        by (auto simp: users_post_def)
      with st1 have "body r = Created \<lparr>created_id = auto_increment st, created_name = body_name b,
                                created_email = body_email b\<rparr> \<and>
          created_id \<lparr>created_id = auto_increment st, created_name = body_name b,
                                created_email = body_email b\<rparr> = auto_increment st \<and>
          row_id \<lparr>row_id = auto_increment st, row_name = n, row_email = e,
                      created_at = now ev\<rparr> = auto_increment st \<and>
          st' = st\<lparr>users := users st @ [\<lparr>row_id = auto_increment st, row_name = n, row_email = e,
                      created_at = now ev\<rparr>], auto_increment := Suc (auto_increment st)\<rparr>"
        by simp
      then show ?thesis by blast
    qed
  qed
qed

lemma store_inv_insert:
  "store_inv st \<Longrightarrow> row_id row = auto_increment st \<Longrightarrow>
   store_inv (st\<lparr>users := users st @ [row], auto_increment := Suc (auto_increment st)\<rparr>)"
  by (auto simp: store_inv_def list_all_iff)

lemma creates_inv:
  "store_inv st \<Longrightarrow> creates isEmail reqs st = (rs, st') \<Longrightarrow>
     store_inv st' \<and> auto_increment st \<le> auto_increment st' \<and>
     (\<exists>new. users st' = users st @ new) \<and>
     (\<forall>i\<in>set (issued_ids rs). auto_increment st \<le> i \<and> i < auto_increment st') \<and>
     sorted_wrt (<) (issued_ids rs)"
proof (induction reqs arbitrary: st rs st')
  case Nil
  then show ?case by simp
next
  case (Cons req reqs)
  obtain ev b where req: "req = (ev, b)" by (cases req)
  obtain r st1 calls where p: "users_post isEmail ev st b = (r, st1, calls)"
    by (cases "users_post isEmail ev st b")
  obtain rs1 st2 where c: "creates isEmail reqs st1 = (rs1, st2)"
    by (cases "creates isEmail reqs st1")
  from Cons.prems(2) req p c have rs: "rs = r # rs1" and st': "st' = st2" by simp_all
  from users_post_cases [OF p] show ?case
  proof
    assume same: "st1 = st \<and> (\<forall>c. body r \<noteq> Created c)"
    then have "issued_ids rs = issued_ids rs1"
      using rs by (cases "body r") simp_all
    with Cons.IH [OF _ c] Cons.prems(1) same st' show ?thesis by simp
  next
    assume "\<exists>c row. body r = Created c \<and> created_id c = auto_increment st \<and>
            row_id row = auto_increment st \<and>
            st1 = st\<lparr>users := users st @ [row], auto_increment := Suc (auto_increment st)\<rparr>"
    then obtain cr row where cr: "body r = Created cr" "created_id cr = auto_increment st"
      and row: "row_id row = auto_increment st"
      and st1: "st1 = st\<lparr>users := users st @ [row], auto_increment := Suc (auto_increment st)\<rparr>"
      by blast
    have inv1: "store_inv st1"
      using store_inv_insert [OF Cons.prems(1) row] st1 by simp
    note ih = Cons.IH [OF inv1 c]
    have ids: "issued_ids rs = auto_increment st # issued_ids rs1"
      using rs cr by simp
    have ai: "auto_increment st1 = Suc (auto_increment st)" and us: "users st1 = users st @ [row]"
      using st1 by simp_all
    from ih ai us ids st' show ?thesis by (auto simp: less_eq_Suc_le)
  qed
qed

lemma sample_creates:
  "creates (\<lambda>s. CHR ''@'' \<in> set s)
     [(gateway_up 1, \<lparr>body_name = text_value ''Ann'', body_email = text_value ''ann@example.com''\<rparr>),
      (gateway_up 2, \<lparr>body_name = text_value ''John'', body_email = text_value ''john@example.com''\<rparr>),
      (gateway_up 3, \<lparr>body_name = text_value ''Bob'', body_email = text_value ''bob@example.com''\<rparr>)]
     (init_sql 0) =
   ([\<lparr>status = 201, body = Created \<lparr>created_id = 3, created_name = text_value ''Ann'',
                                      created_email = text_value ''ann@example.com''\<rparr>\<rparr>,
     \<lparr>status = 500, body = ErrorObj (message (ER_DUP_ENTRY ''john@example.com''))\<rparr>,
     \<lparr>status = 201, body = Created \<lparr>created_id = 4, created_name = text_value ''Bob'',
                                      created_email = text_value ''bob@example.com''\<rparr>\<rparr>],
    \<lparr>users =
       [\<lparr>row_id = 1, row_name = ''John Doe'', row_email = ''john@example.com'', created_at = 0\<rparr>,
        \<lparr>row_id = 2, row_name = ''Jane Smith'', row_email = ''jane@example.com'', created_at = 0\<rparr>,
        \<lparr>row_id = 3, row_name = ''Ann'', row_email = ''ann@example.com'', created_at = 1\<rparr>,
        \<lparr>row_id = 4, row_name = ''Bob'', row_email = ''bob@example.com'', created_at = 3\<rparr>],
     auto_increment = 5\<rparr>)"
  by (simp add: users_post_def validationResult_def values_ev_def notEmpty_def toString_ev_def
      getConnection_def query_insert_def escape_def insert_row_def gateway_up_def init_sql_def)

lemma store_inv_init_sql: "store_inv (init_sql t)"
  by (simp add: store_inv_def init_sql_def)

section \<open>The create operation\<close>

text \<open>Claim C1, as the spec states it, fails. The seed data holds \<open>john@example.com\<close>; a create
  request with that email and a valid name is answered with status 500, the body carrying
  the message of the duplicate-key error, and not with a rejection of the request.\<close>

theorem duplicate_email_counterexample:
  "users_post (\<lambda>s. CHR ''@'' \<in> set s) (gateway_up 0) (init_sql 0)
     \<lparr>body_name = text_value ''John'', body_email = text_value ''john@example.com''\<rparr> =
   (\<lparr>status = 500,
     body = ErrorObj (''Duplicate entry '' @ quoted ''john@example.com'' @ '' for key '' @
                      quoted ''users.email'')\<rparr>,
    init_sql 0,
    [GetConnection, Query INSERT_USER [text_value ''John'', text_value ''john@example.com'']])"
  by (simp add: users_post_def validationResult_def values_ev_def notEmpty_def toString_ev_def
      getConnection_def query_insert_def escape_def insert_row_def gateway_up_def init_sql_def
      ER_DUP_ENTRY_def)

text \<open>Claim C1, amended. A create request that passes validation, with a name and an email
  that are strings, and whose email a row of the table already holds, served while the gateway works, is answered with status 500 and the
  object whose \<open>error\<close> is the message of the duplicate-key error. The handler obtains one
  connection and issues the insert once, with no retry, and the store is left as it was.\<close>

theorem duplicate_email_response:
  assumes "validationResult isEmail b = []"
    and "body_name b = text_value n"
    and "body_email b = text_value e" and "e \<in> row_email ` set (users st)"
    and "connect_error ev = None" and "query_error ev = None"
  shows "users_post isEmail ev st b =
    (\<lparr>status = 500, body = ErrorObj (message (ER_DUP_ENTRY e))\<rparr>, st,
     [GetConnection, Query INSERT_USER [body_name b, body_email b]])"
proof -
  have "getConnection ev = Inr ()"
    using assms(5) by (simp add: getConnection_def)
  moreover have "query_insert ev (body_name b) (body_email b) st = (Inl (ER_DUP_ENTRY e), st)"
    using assms(2,3,4,6) by (simp add: query_insert_def escape_def insert_row_def)
  ultimately show ?thesis
    using assms(1) by (simp add: users_post_def)
qed

theorem duplicate_email_response_witness:
  "validationResult (\<lambda>s. CHR ''@'' \<in> set s)
     \<lparr>body_name = text_value ''Jane'', body_email = text_value ''jane@example.com''\<rparr> = [] \<and>
   ''jane@example.com'' \<in> row_email ` set (users (init_sql 0)) \<and>
   users_post (\<lambda>s. CHR ''@'' \<in> set s) (gateway_up 3) (init_sql 0)
     \<lparr>body_name = text_value ''Jane'', body_email = text_value ''jane@example.com''\<rparr> =
   (\<lparr>status = 500, body = ErrorObj (message (ER_DUP_ENTRY ''jane@example.com''))\<rparr>,
    init_sql 0,
    [GetConnection, Query INSERT_USER [text_value ''Jane'', text_value ''jane@example.com'']])"
  using duplicate_email_response [where isEmail = "\<lambda>s. CHR ''@'' \<in> set s"
      and b = "\<lparr>body_name = text_value ''Jane'', body_email = text_value ''jane@example.com''\<rparr>"
      and n = "''Jane''" and e = "''jane@example.com''" and st = "init_sql 0"
      and ev = "gateway_up 3"]
  by (simp add: validationResult_def values_ev_def notEmpty_def toString_ev_def init_sql_def
      gateway_up_def)

text \<open>Requests whose two fields are absent or strings are validated as the spec says: when
  the name is absent or empty, or the email is absent or not a valid address (the validator
  refusing the empty string), the answer has status 400 and lists one error for each
  violated field, name before email; the store is left as it was and no call is made on
  the gateway.\<close>

lemma create_rejects_invalid_text:
  assumes "\<not> isEmail []"
    and "body_name b = None \<or> (\<exists>s. body_name b = text_value s)"
    and "body_email b = None \<or> (\<exists>s. body_email b = text_value s)"
    and "body_name b = None \<or> body_name b = text_value [] \<or> body_email b = None \<or>
         (\<exists>s. body_email b = text_value s \<and> \<not> isEmail s)"
  shows "\<exists>errs.
           users_post isEmail ev st b = (\<lparr>status = 400, body = ValidationErrors errs\<rparr>, st, []) \<and>
           map ve_path errs =
             (if body_name b = None \<or> body_name b = text_value [] then [''name''] else []) @
             (if body_email b = None \<or> (\<exists>s. body_email b = text_value s \<and> \<not> isEmail s)
              then [''email''] else [])"
proof -
  let ?errs = "validationResult isEmail b"
  have name: "map ve_path (map (invalid_value ''name'')
        (filter (\<lambda>v. \<not> notEmpty v) (values_ev (body_name b)))) =
      (if body_name b = None \<or> body_name b = text_value [] then [''name''] else [])"
    using assms(2)
    by (auto simp: values_ev_def notEmpty_def toString_ev_def invalid_value_def
        split: if_splits)
  have email: "map ve_path (map (invalid_value ''email'')
        (filter (\<lambda>v. \<not> isEmail (toString_ev v)) (values_ev (body_email b)))) =
      (if body_email b = None \<or> (\<exists>s. body_email b = text_value s \<and> \<not> isEmail s)
       then [''email''] else [])"
    using assms(1,3)
    by (auto simp: values_ev_def toString_ev_def invalid_value_def split: if_splits)
  have paths: "map ve_path ?errs =
      (if body_name b = None \<or> body_name b = text_value [] then [''name''] else []) @
      (if body_email b = None \<or> (\<exists>s. body_email b = text_value s \<and> \<not> isEmail s)
       then [''email''] else [])"
    unfolding validationResult_def map_append name email by simp
  have "?errs \<noteq> []"
  proof
    assume "?errs = []"
    then have "map ve_path ?errs = []" by simp
    with paths assms(4) show False by (auto split: if_splits)
  qed
  then have "users_post isEmail ev st b = (\<lparr>status = 400, body = ValidationErrors ?errs\<rparr>, st, [])"
    by (simp add: users_post_def)
  with paths show ?thesis by blast
qed

text \<open>Claim C2 fails where a field is an array. An email that is the empty array is not a
  valid address, yet the chain has no value to run \<open>isEmail\<close> on and reports no error,
  whatever the validator; the handler goes on to the gateway and issues the insert. With a
  store that refuses the statement the answer has status 500, with one that takes it
  status 201: in neither case 400, and in both the gateway is called.\<close>

theorem create_array_email_not_rejected:
  "validationResult isEmail
     \<lparr>body_name = text_value ''Ann'', body_email = Some (Array [])\<rparr> = [] \<and>
   users_post isEmail (gateway_up 0) (init_sql 0)
     \<lparr>body_name = text_value ''Ann'', body_email = Some (Array [])\<rparr> =
     (\<lparr>status = 500, body = ErrorObj (message ER_PARSE_ERROR)\<rparr>, init_sql 0,
      [GetConnection, Query INSERT_USER [text_value ''Ann'', Some (Array [])]]) \<and>
   users_post isEmail ((gateway_up 0)\<lparr>other_params := Inr (''Ann'', [])\<rparr>) (init_sql 0)
     \<lparr>body_name = text_value ''Ann'', body_email = Some (Array [])\<rparr> =
     (\<lparr>status = 201,
       body = Created \<lparr>created_id = 3, created_name = text_value ''Ann'',
                       created_email = Some (Array [])\<rparr>\<rparr>,
      \<lparr>users =
         [\<lparr>row_id = 1, row_name = ''John Doe'', row_email = ''john@example.com'', created_at = 0\<rparr>,
          \<lparr>row_id = 2, row_name = ''Jane Smith'', row_email = ''jane@example.com'', created_at = 0\<rparr>,
          \<lparr>row_id = 3, row_name = ''Ann'', row_email = [], created_at = 0\<rparr>],
       auto_increment = 4\<rparr>,
      [GetConnection, Query INSERT_USER [text_value ''Ann'', Some (Array [])], Release])"
  by (simp add: users_post_def validationResult_def values_ev_def notEmpty_def toString_ev_def
      getConnection_def query_insert_def escape_def insert_row_def gateway_up_def init_sql_def)

text \<open>Claim C3, as the spec states it, fails. When the gateway cannot connect, the list
  operation answers with the text of the driver's error as the \<open>error\<close> of the body.\<close>

theorem data_failure_counterexample:
  "users_get (gateway_down ETIMEDOUT 0) (init_sql 0) =
     (\<lparr>status = 500, body = ErrorObj ''connect ETIMEDOUT''\<rparr>, init_sql 0, [GetConnection]) \<and>
   message ETIMEDOUT = ''connect ETIMEDOUT''"
  by (simp add: users_get_def getConnection_def gateway_down_def ETIMEDOUT_def)

text \<open>Claim C3, amended. Whenever a call on the gateway fails during a list, or during a create
  that passed validation, be it \<open>getConnection\<close> or the query, the response has status 500
  and its body is the object whose only field, \<open>error\<close>, is the message of that failure
  as it is; the stack of the error is not part of the body.\<close>

theorem data_failure_response:
  "(getConnection ev = Inl e \<longrightarrow>
      fst (users_get ev st) = \<lparr>status = 500, body = ErrorObj (message e)\<rparr> \<and>
      (validationResult isEmail b = [] \<longrightarrow>
         fst (users_post isEmail ev st b) = \<lparr>status = 500, body = ErrorObj (message e)\<rparr>)) \<and>
   (getConnection ev = Inr () \<and> query_select ev st = Inl e \<longrightarrow>
      fst (users_get ev st) = \<lparr>status = 500, body = ErrorObj (message e)\<rparr>) \<and>
   (getConnection ev = Inr () \<and> fst (query_insert ev (body_name b) (body_email b) st) = Inl e \<and>
    validationResult isEmail b = [] \<longrightarrow>
      fst (users_post isEmail ev st b) = \<lparr>status = 500, body = ErrorObj (message e)\<rparr>)"
  by (auto simp: users_get_def users_post_def split: prod.splits sum.splits)

theorem data_failure_response_witness:
  "getConnection (gateway_down ETIMEDOUT 0) = Inl ETIMEDOUT \<and>
   validationResult (\<lambda>s. CHR ''@'' \<in> set s)
     \<lparr>body_name = text_value ''Ann'', body_email = text_value ''ann@example.com''\<rparr> = [] \<and>
   fst (users_get (gateway_down ETIMEDOUT 0) (init_sql 0)) =
     \<lparr>status = 500, body = ErrorObj (message ETIMEDOUT)\<rparr> \<and>
   fst (users_post (\<lambda>s. CHR ''@'' \<in> set s) (gateway_down ETIMEDOUT 0) (init_sql 0)
          \<lparr>body_name = text_value ''Ann'', body_email = text_value ''ann@example.com''\<rparr>) =
     \<lparr>status = 500, body = ErrorObj (message ETIMEDOUT)\<rparr> \<and>
   getConnection ((gateway_down ETIMEDOUT 0)\<lparr>connect_error := None\<rparr>) = Inr () \<and>
   query_select ((gateway_down ETIMEDOUT 0)\<lparr>connect_error := None\<rparr>) (init_sql 0) = Inl ETIMEDOUT \<and>
   fst (users_get ((gateway_down ETIMEDOUT 0)\<lparr>connect_error := None\<rparr>) (init_sql 0)) =
     \<lparr>status = 500, body = ErrorObj (message ETIMEDOUT)\<rparr> \<and>
   fst (query_insert ((gateway_down ETIMEDOUT 0)\<lparr>connect_error := None\<rparr>)
          (text_value ''Ann'') (text_value ''ann@example.com'') (init_sql 0)) = Inl ETIMEDOUT \<and>
   fst (users_post (\<lambda>s. CHR ''@'' \<in> set s) ((gateway_down ETIMEDOUT 0)\<lparr>connect_error := None\<rparr>)
          (init_sql 0) \<lparr>body_name = text_value ''Ann'', body_email = text_value ''ann@example.com''\<rparr>) =
     \<lparr>status = 500, body = ErrorObj (message ETIMEDOUT)\<rparr>"
  using data_failure_response [where isEmail = "\<lambda>s. CHR ''@'' \<in> set s"
      and b = "\<lparr>body_name = text_value ''Ann'', body_email = text_value ''ann@example.com''\<rparr>"
      and e = ETIMEDOUT and st = "init_sql 0" and ev = "gateway_down ETIMEDOUT 0"]
    data_failure_response [where isEmail = "\<lambda>s. CHR ''@'' \<in> set s"
      and b = "\<lparr>body_name = text_value ''Ann'', body_email = text_value ''ann@example.com''\<rparr>"
      and e = ETIMEDOUT and st = "init_sql 0"
      and ev = "(gateway_down ETIMEDOUT 0)\<lparr>connect_error := None\<rparr>"]
  by (simp add: validationResult_def values_ev_def notEmpty_def toString_ev_def
      gateway_down_def getConnection_def query_select_def query_insert_def)

text \<open>Claim C4. A create request with a non-empty name and a valid email, both strings, that no row of the
  table holds, served while the gateway works, appends exactly one row, under the id of the
  auto-increment counter, and is answered with status 201 and the object of that id and the
  submitted name and email; the object has no other field, so no \<open>created_at\<close>.\<close>

theorem create_success:
  assumes "n \<noteq> []" and "isEmail e" and "e \<notin> row_email ` set (users st)"
    and "connect_error ev = None" and "query_error ev = None"
  shows "users_post isEmail ev st \<lparr>body_name = text_value n, body_email = text_value e\<rparr> =
    (\<lparr>status = 201,
      body = Created \<lparr>created_id = auto_increment st, created_name = text_value n,
                      created_email = text_value e\<rparr>\<rparr>,
     st\<lparr>users := users st @
          [\<lparr>row_id = auto_increment st, row_name = n, row_email = e, created_at = now ev\<rparr>],
        auto_increment := Suc (auto_increment st)\<rparr>,
     [GetConnection, Query INSERT_USER [text_value n, text_value e], Release])"
  using assms by (rule users_post_valid)

theorem create_success_witness:
  "''Ann'' \<noteq> [] \<and> (\<lambda>s. CHR ''@'' \<in> set s) ''ann@example.com'' \<and>
   ''ann@example.com'' \<notin> row_email ` set (users (init_sql 0)) \<and>
   connect_error (gateway_up 7) = None \<and> query_error (gateway_up 7) = None \<and>
   users_post (\<lambda>s. CHR ''@'' \<in> set s) (gateway_up 7) (init_sql 0)
     \<lparr>body_name = text_value ''Ann'', body_email = text_value ''ann@example.com''\<rparr> =
    (\<lparr>status = 201,
      body = Created \<lparr>created_id = 3, created_name = text_value ''Ann'',
                      created_email = text_value ''ann@example.com''\<rparr>\<rparr>,
     \<lparr>users =
        [\<lparr>row_id = 1, row_name = ''John Doe'', row_email = ''john@example.com'', created_at = 0\<rparr>,
         \<lparr>row_id = 2, row_name = ''Jane Smith'', row_email = ''jane@example.com'', created_at = 0\<rparr>,
         \<lparr>row_id = 3, row_name = ''Ann'', row_email = ''ann@example.com'', created_at = 7\<rparr>],
      auto_increment = 4\<rparr>,
     [GetConnection, Query INSERT_USER [text_value ''Ann'', text_value ''ann@example.com''], Release])"
  using create_success [where isEmail = "\<lambda>s. CHR ''@'' \<in> set s" and n = "''Ann''"
      and e = "''ann@example.com''" and st = "init_sql 0" and ev = "gateway_up 7"]
  by (simp add: init_sql_def gateway_up_def)

section \<open>The list operation\<close>

text \<open>Claim C5. While the gateway works, the list operation answers with status 200 and all
  rows of the table, in order, each projected to id, name and email; on an empty table that
  is the empty list. When \<open>getConnection\<close> or the query fails, the answer has status 500
  and an error object, which differs from the answer for an empty table.\<close>

theorem list_users_result:
  "(connect_error ev = None \<and> query_error ev = None \<longrightarrow>
      users_get ev st =
        (\<lparr>status = 200, body = Users (map project (users st))\<rparr>, st,
         [GetConnection, Query SELECT_USERS [], Release])) \<and>
   (connect_error ev = None \<and> query_error ev = None \<and> users st = [] \<longrightarrow>
      fst (users_get ev st) = \<lparr>status = 200, body = Users []\<rparr>) \<and>
   (connect_error ev = Some e \<or> (connect_error ev = None \<and> query_error ev = Some e) \<longrightarrow>
      fst (users_get ev st) = \<lparr>status = 500, body = ErrorObj (message e)\<rparr> \<and>
      fst (users_get ev st) \<noteq> \<lparr>status = 200, body = Users []\<rparr>)"
  by (auto simp: users_get_def getConnection_def query_select_def)

theorem list_users_result_witness:
  "connect_error (gateway_up 9) = None \<and> query_error (gateway_up 9) = None \<and>
   users_get (gateway_up 9) (init_sql 0) =
     (\<lparr>status = 200,
       body = Users [\<lparr>user_id = 1, user_name = ''John Doe'', user_email = ''john@example.com''\<rparr>,
                     \<lparr>user_id = 2, user_name = ''Jane Smith'', user_email = ''jane@example.com''\<rparr>]\<rparr>,
      init_sql 0, [GetConnection, Query SELECT_USERS [], Release]) \<and>
   users \<lparr>users = [], auto_increment = 1\<rparr> = [] \<and>
   fst (users_get (gateway_up 9) \<lparr>users = [], auto_increment = 1\<rparr>) =
     \<lparr>status = 200, body = Users []\<rparr> \<and>
   connect_error (gateway_down ETIMEDOUT 9) = Some ETIMEDOUT \<and>
   fst (users_get (gateway_down ETIMEDOUT 9) \<lparr>users = [], auto_increment = 1\<rparr>) =
     \<lparr>status = 500, body = ErrorObj ''connect ETIMEDOUT''\<rparr>"
  using list_users_result [where ev = "gateway_up 9" and st = "init_sql 0"]
    list_users_result [where ev = "gateway_up 9" and st = "\<lparr>users = [], auto_increment = 1\<rparr>"]
    list_users_result [where ev = "gateway_down ETIMEDOUT 9" and e = ETIMEDOUT
      and st = "\<lparr>users = [], auto_increment = 1\<rparr>"]
  by (simp add: gateway_up_def gateway_down_def init_sql_def project_def ETIMEDOUT_def)

text \<open>Claim C8. The list operation leaves the store as it was, whatever the gateway does; and
  a second list, served under the same condition of the gateway, gives the same result as
  the first.\<close>

theorem list_idempotent:
  "fst (snd (users_get ev st)) = st \<and>
   (connect_error ev' = connect_error ev \<and> query_error ev' = query_error ev \<longrightarrow>
      users_get ev' (fst (snd (users_get ev st))) = users_get ev st)"
  by (auto simp: users_get_def getConnection_def query_select_def split: option.splits)

theorem list_idempotent_witness:
  "connect_error (gateway_up 12) = connect_error (gateway_up 9) \<and>
   query_error (gateway_up 12) = query_error (gateway_up 9) \<and>
   fst (snd (users_get (gateway_up 9) (init_sql 0))) = init_sql 0 \<and>
   users_get (gateway_up 12) (fst (snd (users_get (gateway_up 9) (init_sql 0)))) =
     users_get (gateway_up 9) (init_sql 0) \<and>
   status (fst (users_get (gateway_up 9) (init_sql 0))) = 200"
  using list_idempotent [where ev = "gateway_up 9" and ev' = "gateway_up 12" and st = "init_sql 0"]
  by (simp add: gateway_up_def users_get_def getConnection_def query_select_def)

section \<open>The health check\<close>

text \<open>Claim C6. When the connection is obtained and the ping succeeds, the health handler
  answers with status 200, the healthy indicator and the reading of the clock of this
  call. When either fails it answers with status 503, the unhealthy indicator and the
  message of the failure. In every case it obtains one connection, pings at most once,
  issues no query, and leaves the store as it was.\<close>

theorem health_check:
  "(connect_error ev = None \<and> ping_error ev = None \<longrightarrow>
      health_get ev = (\<lparr>status = 200, body = Healthy (now ev)\<rparr>, [GetConnection, Ping, Release])) \<and>
   (connect_error ev = Some e \<or> (connect_error ev = None \<and> ping_error ev = Some e) \<longrightarrow>
      fst (health_get ev) = \<lparr>status = 503, body = Unhealthy (message e)\<rparr>) \<and>
   set (snd (health_get ev)) \<subseteq> {GetConnection, Ping, Release} \<and>
   count_list (snd (health_get ev)) GetConnection = 1 \<and>
   count_list (snd (health_get ev)) Ping \<le> 1 \<and>
   (case health_router pf ev st m rest of
      None \<Rightarrow> True
    | Some (r, st', calls) \<Rightarrow> (r, calls) = health_get ev \<and> st' = st)"
  by (auto simp: health_get_def health_router_def getConnection_def ping_def
      split: option.splits prod.splits)

theorem health_check_witness:
  "connect_error (gateway_up 41) = None \<and> ping_error (gateway_up 41) = None \<and>
   health_get (gateway_up 41) =
     (\<lparr>status = 200, body = Healthy 41\<rparr>, [GetConnection, Ping, Release]) \<and>
   health_get (gateway_up 42) =
     (\<lparr>status = 200, body = Healthy 42\<rparr>, [GetConnection, Ping, Release]) \<and>
   connect_error ((gateway_down ETIMEDOUT 43)\<lparr>connect_error := None\<rparr>) = None \<and>
   ping_error ((gateway_down ETIMEDOUT 43)\<lparr>connect_error := None\<rparr>) = Some ETIMEDOUT \<and>
   fst (health_get ((gateway_down ETIMEDOUT 43)\<lparr>connect_error := None\<rparr>)) =
     \<lparr>status = 503, body = Unhealthy ''connect ETIMEDOUT''\<rparr>"
  using health_check [where ev = "gateway_up 41"] health_check [where ev = "gateway_up 42"]
    health_check [where ev = "(gateway_down ETIMEDOUT 43)\<lparr>connect_error := None\<rparr>"
      and e = ETIMEDOUT]
  by (simp add: gateway_up_def gateway_down_def ETIMEDOUT_def)

section \<open>Dispatch\<close>

text \<open>Claim C7, as the spec states it, fails. An \<open>OPTIONS\<close> request to a path that matches no
  route is answered by \<open>cors()\<close> with status 204 and no content; it never reaches the 404
  handler.\<close>

theorem unmatched_request_counterexample:
  "\<not> routed sample_platform
      \<lparr>req_method = OPTIONS, req_url = ''/foo'', req_headers = [], req_raw = NoBody\<rparr> \<and>
   app sample_platform (gateway_up 0) (init_sql 0)
     \<lparr>req_method = OPTIONS, req_url = ''/foo'', req_headers = [], req_raw = NoBody\<rparr> =
     (\<lparr>status = 204, body = NoContent\<rparr>, init_sql 0, [])"
  by (simp add: routed_def app_def dispatch_def for_method_def cors_def sample_platform_def
      handles_method_def)

text \<open>Claim C7, amended. A request that is not an \<open>OPTIONS\<close> request, whose body the JSON
  parser accepts, that \<open>express.static\<close> does not answer with a file of \<open>public\<close>, and
  whose path and method match no registered route, is answered with status 404 and the
  object \<open>{error: "Not Found"}\<close>, or, when its method is \<open>HEAD\<close>, with status 404 and
  no body. A \<open>GET\<close> of the root path, with a body the parser accepts and no conditional or
  range header, is answered with status 200 and \<open>public/index.html\<close> when that file exists,
  with no call on the gateway and the store as it was.\<close>

theorem unmatched_request_not_found:
  "(req_method req \<noteq> OPTIONS \<and> parses (req_raw req) \<and>
    express_static pf req = None \<and> \<not> routed pf req \<longrightarrow>
      app pf ev st req =
        (\<lparr>status = 404,
          body = (if req_method req = HEAD then NoContent else ErrorObj ''Not Found'')\<rparr>,
         st, [])) \<and>
   (public_dir pf ''/index.html'' = Some d \<and> parses raw \<and> \<not> conditional hs \<longrightarrow>
      app pf ev st \<lparr>req_method = GET, req_url = ''/'', req_headers = hs, req_raw = raw\<rparr> =
        (\<lparr>status = 200, body = File d\<rparr>, st, []))"
proof (intro conjI impI)
  assume a: "req_method req \<noteq> OPTIONS \<and> parses (req_raw req) \<and>
    express_static pf req = None \<and> \<not> routed pf req"
  then have c: "cors req = None" by (simp add: cors_def)
  from a obtain b where j: "express_json (req_raw req) = Inr b"
    by (cases "req_raw req") (simp_all add: express_json_def parses_def)
  from a have u: "(case use_match pf ''/api/users'' (req_url req) of
        Some rest \<Rightarrow> users_router pf ev st (req_method req) rest b | None \<Rightarrow> None) = None"
    by (auto simp: routed_def users_router_def split: option.splits)
  from a have h: "(case use_match pf ''/api/health'' (req_url req) of
        Some rest \<Rightarrow> health_router pf ev st (req_method req) rest | None \<Rightarrow> None) = None"
    by (auto simp: routed_def health_router_def split: option.splits)
  from a have r: "\<not> (handles_method GET (req_method req) \<and> route_match pf ''/'' (req_url req))"
    by (auto simp: routed_def)
  have s: "res_send pf req \<lparr>status = 404, body = ErrorObj ''Not Found''\<rparr> =
      \<lparr>status = 404, body = ErrorObj ''Not Found''\<rparr>"
    by (simp add: res_send_def)
  from a c j u h r have "dispatch pf ev st req =
      (\<lparr>status = 404, body = ErrorObj ''Not Found''\<rparr>, st, [])"
    unfolding dispatch_def s by auto
  then show "app pf ev st req =
      (\<lparr>status = 404,
        body = (if req_method req = HEAD then NoContent else ErrorObj ''Not Found'')\<rparr>,
       st, [])"
    by (simp add: app_def for_method_def)
next
  assume a: "public_dir pf ''/index.html'' = Some d \<and> parses raw \<and> \<not> conditional hs"
  then obtain b where j: "express_json raw = Inr b"
    by (cases raw) (simp_all add: express_json_def parses_def)
  with a show "app pf ev st \<lparr>req_method = GET, req_url = ''/'', req_headers = hs, req_raw = raw\<rparr> =
        (\<lparr>status = 200, body = File d\<rparr>, st, [])"
    by (simp add: app_def dispatch_def for_method_def cors_def express_static_def send_def)
qed

theorem unmatched_request_not_found_witness:
  "express_static sample_platform
     \<lparr>req_method = GET, req_url = ''/foo'', req_headers = [], req_raw = NoBody\<rparr> = None \<and>
   \<not> routed sample_platform
      \<lparr>req_method = GET, req_url = ''/foo'', req_headers = [], req_raw = NoBody\<rparr> \<and>
   parses NoBody \<and>
   app sample_platform (gateway_up 0) (init_sql 0)
     \<lparr>req_method = GET, req_url = ''/foo'', req_headers = [], req_raw = NoBody\<rparr> =
     (\<lparr>status = 404, body = ErrorObj ''Not Found''\<rparr>, init_sql 0, []) \<and>
   express_static sample_platform
     \<lparr>req_method = HEAD, req_url = ''/foo'', req_headers = [], req_raw = NoBody\<rparr> = None \<and>
   \<not> routed sample_platform
      \<lparr>req_method = HEAD, req_url = ''/foo'', req_headers = [], req_raw = NoBody\<rparr> \<and>
   app sample_platform (gateway_up 0) (init_sql 0)
     \<lparr>req_method = HEAD, req_url = ''/foo'', req_headers = [], req_raw = NoBody\<rparr> =
     (\<lparr>status = 404, body = NoContent\<rparr>, init_sql 0, []) \<and>
   public_dir sample_platform ''/index.html'' = Some ''<html></html>'' \<and>
   \<not> conditional [(''accept'', ''text/html'')] \<and>
   app sample_platform (gateway_down ETIMEDOUT 0) (init_sql 0)
     \<lparr>req_method = GET, req_url = ''/'', req_headers = [(''accept'', ''text/html'')],
      req_raw = NoBody\<rparr> =
     (\<lparr>status = 200, body = File ''<html></html>''\<rparr>, init_sql 0, [])"
  using unmatched_request_not_found [where pf = sample_platform and ev = "gateway_up 0"
      and st = "init_sql 0"
      and req = "\<lparr>req_method = GET, req_url = ''/foo'', req_headers = [], req_raw = NoBody\<rparr>"]
    unmatched_request_not_found [where pf = sample_platform and ev = "gateway_up 0"
      and st = "init_sql 0"
      and req = "\<lparr>req_method = HEAD, req_url = ''/foo'', req_headers = [], req_raw = NoBody\<rparr>"]
    unmatched_request_not_found [where pf = sample_platform and ev = "gateway_down ETIMEDOUT 0"
      and st = "init_sql 0" and raw = NoBody and d = "''<html></html>''"
      and hs = "[(''accept'', ''text/html'')]"]
  by (simp add: sample_platform_def express_static_def routed_def handles_method_def parses_def
      conditional_def has_header_def)

section \<open>Ids\<close>

text \<open>Claim C9. From a store in which every id lies below the auto-increment counter, the ids
  that a sequence of create requests reports are strictly increasing, hence distinct, each
  is greater than every id the table held before, and the rows the table held before are
  still its first rows, unchanged.\<close>

theorem issued_ids_increasing:
  assumes "store_inv st" and "creates isEmail reqs st = (rs, st')"
  shows "sorted_wrt (<) (issued_ids rs) \<and> distinct (issued_ids rs) \<and>
         (\<forall>i\<in>set (issued_ids rs). \<forall>r\<in>set (users st). row_id r < i) \<and>
         take (length (users st)) (users st') = users st"
proof -
  note inv = creates_inv [OF assms]
  from inv have s: "sorted_wrt (<) (issued_ids rs)" by simp
  then have d: "distinct (issued_ids rs)"
    by (simp add: strict_sorted_iff)
  from inv assms(1) have b: "\<forall>i\<in>set (issued_ids rs). \<forall>r\<in>set (users st). row_id r < i"
    by (fastforce simp: store_inv_def list_all_iff)
  from inv have t: "take (length (users st)) (users st') = users st" by auto
  from s d b t show ?thesis by simp
qed

theorem issued_ids_increasing_witness:
  "store_inv (init_sql 0) \<and>
   issued_ids (fst (creates (\<lambda>s. CHR ''@'' \<in> set s)
     [(gateway_up 1, \<lparr>body_name = text_value ''Ann'', body_email = text_value ''ann@example.com''\<rparr>),
      (gateway_up 2, \<lparr>body_name = text_value ''John'', body_email = text_value ''john@example.com''\<rparr>),
      (gateway_up 3, \<lparr>body_name = text_value ''Bob'', body_email = text_value ''bob@example.com''\<rparr>)]
     (init_sql 0))) = [3, 4] \<and>
   sorted_wrt (<) [3, 4 :: nat] \<and> distinct [3, 4 :: nat] \<and>
   take (length (users (init_sql 0)))
     (users (snd (creates (\<lambda>s. CHR ''@'' \<in> set s)
     [(gateway_up 1, \<lparr>body_name = text_value ''Ann'', body_email = text_value ''ann@example.com''\<rparr>),
      (gateway_up 2, \<lparr>body_name = text_value ''John'', body_email = text_value ''john@example.com''\<rparr>),
      (gateway_up 3, \<lparr>body_name = text_value ''Bob'', body_email = text_value ''bob@example.com''\<rparr>)]
     (init_sql 0)))) = users (init_sql 0)"
  using issued_ids_increasing [OF store_inv_init_sql [of 0] sample_creates] store_inv_init_sql [of 0]
  unfolding sample_creates by (simp add: init_sql_def)

text \<open>Claim C10. A name that is a string, not empty, and consists of whitespace only passes the name
  validation; with a valid email that no row holds and a working gateway, the create is
  answered with status 201, and a list that follows returns the user under that name.\<close>

theorem whitespace_name_accepted:
  assumes "s \<noteq> []" and "\<forall>c\<in>set s. whitespace c"
    and "isEmail e" and "e \<notin> row_email ` set (users st)"
    and "connect_error ev = None" and "query_error ev = None"
    and "connect_error ev' = None" and "query_error ev' = None"
  shows "notEmpty (Some (Str s)) \<and>
    validationResult isEmail \<lparr>body_name = text_value s, body_email = text_value e\<rparr> = [] \<and>
    status (fst (users_post isEmail ev st \<lparr>body_name = text_value s, body_email = text_value e\<rparr>)) = 201 \<and>
    (\<exists>us. fst (users_get ev'
              (fst (snd (users_post isEmail ev st \<lparr>body_name = text_value s, body_email = text_value e\<rparr>)))) =
             \<lparr>status = 200, body = Users us\<rparr> \<and>
           \<lparr>user_id = auto_increment st, user_name = s, user_email = e\<rparr> \<in> set us)"
proof -
  have ne: "notEmpty (Some (Str s))"
    using assms(1) by (simp add: notEmpty_def toString_ev_def)
  then have v: "validationResult isEmail \<lparr>body_name = text_value s, body_email = text_value e\<rparr> = []"
    using assms(3) by (simp add: validationResult_def values_ev_def toString_ev_def)
  have p: "users_post isEmail ev st \<lparr>body_name = text_value s, body_email = text_value e\<rparr> =
    (\<lparr>status = 201,
      body = Created \<lparr>created_id = auto_increment st, created_name = text_value s,
                      created_email = text_value e\<rparr>\<rparr>,
     st\<lparr>users := users st @
          [\<lparr>row_id = auto_increment st, row_name = s, row_email = e, created_at = now ev\<rparr>],
        auto_increment := Suc (auto_increment st)\<rparr>,
     [GetConnection, Query INSERT_USER [text_value s, text_value e], Release])"
    using assms(1,3,4,5,6) by (rule users_post_valid)
  have g: "fst (users_get ev' (fst (snd (users_post isEmail ev st
                \<lparr>body_name = text_value s, body_email = text_value e\<rparr>)))) =
      \<lparr>status = 200, body = Users (map project (users st) @
          [\<lparr>user_id = auto_increment st, user_name = s, user_email = e\<rparr>])\<rparr>"
    using assms(7,8) unfolding p
    by (simp add: users_get_def getConnection_def query_select_def project_def)
  from ne v p g show ?thesis by simp
qed

theorem whitespace_name_accepted_witness:
  "'' '' \<noteq> [] \<and> list_all whitespace '' '' \<and>
   ''ann@example.com'' \<notin> row_email ` set (users (init_sql 0)) \<and>
   validationResult (\<lambda>s. CHR ''@'' \<in> set s)
     \<lparr>body_name = text_value '' '', body_email = text_value ''ann@example.com''\<rparr> = [] \<and>
   status (fst (users_post (\<lambda>s. CHR ''@'' \<in> set s) (gateway_up 1) (init_sql 0)
     \<lparr>body_name = text_value '' '', body_email = text_value ''ann@example.com''\<rparr>)) = 201 \<and>
   fst (users_get (gateway_up 2)
          (fst (snd (users_post (\<lambda>s. CHR ''@'' \<in> set s) (gateway_up 1) (init_sql 0)
             \<lparr>body_name = text_value '' '', body_email = text_value ''ann@example.com''\<rparr>)))) =
     \<lparr>status = 200,
      body = Users [\<lparr>user_id = 1, user_name = ''John Doe'', user_email = ''john@example.com''\<rparr>,
                    \<lparr>user_id = 2, user_name = ''Jane Smith'', user_email = ''jane@example.com''\<rparr>,
                    \<lparr>user_id = 3, user_name = '' '', user_email = ''ann@example.com''\<rparr>]\<rparr>"
  using whitespace_name_accepted [where isEmail = "\<lambda>s. CHR ''@'' \<in> set s" and s = "'' ''"
      and e = "''ann@example.com''" and st = "init_sql 0" and ev = "gateway_up 1"
      and ev' = "gateway_up 2"]
  by (simp add: whitespace_def init_sql_def gateway_up_def users_post_def validationResult_def
      values_ev_def notEmpty_def toString_ev_def getConnection_def query_insert_def escape_def
      insert_row_def users_get_def query_select_def project_def)

end
